theory Spec2Isabelle
  imports Complex_Main
begin

section \<open>Python values shared by the three modules\<close>

text \<open>
  The source is Python. A \<open>float\<close> is modelled as an exact \<open>real\<close>, an \<open>int\<close>
  that only takes part in float arithmetic as the same \<open>real\<close>, a \<open>dict\<close> either as a
  record (when the source builds it with fixed keys) or as a map / association list (when
  the keys are looked up with \<open>.get\<close>). Exceptions are values of \<open>py_exception\<close>.
\<close>

datatype py_exception =
    TypeError
  | ZeroDivisionError
  | IndexError
  | ProviderError string

text \<open>The values a \<open>Dict[str, Any]\<close> profile can hold under the keys the engine reads.\<close>

datatype pyval = PNone | PNum real | PStr string

text \<open>JSON-like bodies of slides; a dict keeps its insertion order.\<close>

datatype json =
    JNull
  | JNum real
  | JStr string
  | JList "json list"
  | JObj "(string \<times> json) list"

type_synonym py_dict = "(string \<times> json) list"

section \<open>backend/src/models/slide.py: SlideType\<close>

datatype SlideType =
    TITLE | PROBLEM | SOLUTION | MARKET_OPPORTUNITY | BUSINESS_MODEL | TRACTION
  | COMPETITION | TEAM | FINANCIALS | FUNDING_ASK | ROADMAP | CONTACT | CUSTOM

fun slide_type_value :: "SlideType \<Rightarrow> string" where
  "slide_type_value TITLE = ''title''"
| "slide_type_value PROBLEM = ''problem''"
| "slide_type_value SOLUTION = ''solution''"
| "slide_type_value MARKET_OPPORTUNITY = ''market_opportunity''"
| "slide_type_value BUSINESS_MODEL = ''business_model''"
| "slide_type_value TRACTION = ''traction''"
| "slide_type_value COMPETITION = ''competition''"
| "slide_type_value TEAM = ''team''"
| "slide_type_value FINANCIALS = ''financials''"
| "slide_type_value FUNDING_ASK = ''funding_ask''"
| "slide_type_value ROADMAP = ''roadmap''"
| "slide_type_value CONTACT = ''contact''"
| "slide_type_value CUSTOM = ''custom''"

section \<open>Python string methods used by the fallback slide\<close>

definition ascii_lowercase :: string where
  "ascii_lowercase = ''abcdefghijklmnopqrstuvwxyz''"

definition ascii_uppercase :: string where
  "ascii_uppercase = ''ABCDEFGHIJKLMNOPQRSTUVWXYZ''"

definition char_upper :: "char \<Rightarrow> char" where
  "char_upper c = (case map_of (zip ascii_lowercase ascii_uppercase) c of
                     None \<Rightarrow> c | Some u \<Rightarrow> u)"

definition char_lower :: "char \<Rightarrow> char" where
  "char_lower c = (case map_of (zip ascii_uppercase ascii_lowercase) c of
                     None \<Rightarrow> c | Some l \<Rightarrow> l)"

definition is_cased :: "char \<Rightarrow> bool" where
  "is_cased c = (c \<in> set ascii_lowercase \<or> c \<in> set ascii_uppercase)"

text \<open>\<open>s.replace(old, new)\<close> for one-character \<open>old\<close> and \<open>new\<close>.\<close>

definition str_replace_char :: "char \<Rightarrow> char \<Rightarrow> string \<Rightarrow> string" where
  "str_replace_char old new s = map (\<lambda>c. if c = old then new else c) s"

text \<open>
  \<open>s.title()\<close> on ASCII text: a cased character is upper-cased when the character before
  it is not cased, and lower-cased otherwise. The flag is Python's \<open>previous_is_cased\<close>.
\<close>

fun str_title_from :: "bool \<Rightarrow> string \<Rightarrow> string" where
  "str_title_from previous_is_cased [] = []"
| "str_title_from previous_is_cased (c # cs) =
     (if is_cased c
      then (if previous_is_cased then char_lower c else char_upper c) # str_title_from True cs
      else c # str_title_from False cs)"

definition str_title :: "string \<Rightarrow> string" where
  "str_title s = str_title_from False s"

section \<open>backend/src/ai/content\_generator.py\<close>

text \<open>
  A generated slide is the dict built by \<open>generate_slide_content\<close> and by
  \<open>_create_fallback_content\<close>: the same four keys in both.
\<close>

record slide_content =
  slide_type :: string
  content :: py_dict
  generated_at :: string
  model_used :: string

text \<open>
  What one generation job meets outside the program: the answer of each type-specific
  generator (\<open>_generate_title_slide\<close> ... \<open>_generate_custom_slide\<close>, which format a prompt
  and call the provider), as the slide body or as the exception raised, and the reading of
  \<open>datetime.utcnow().isoformat()\<close> taken when the job stamps its result. The startup
  profile is a type parameter: the orchestrator only passes it on.
\<close>

record 'st job_env =
  generate_title_slide :: "'st \<Rightarrow> py_exception + py_dict"
  generate_problem_slide :: "'st \<Rightarrow> py_exception + py_dict"
  generate_solution_slide :: "'st \<Rightarrow> py_exception + py_dict"
  generate_market_slide :: "'st \<Rightarrow> py_exception + py_dict"
  generate_business_model_slide :: "'st \<Rightarrow> py_exception + py_dict"
  generate_traction_slide :: "'st \<Rightarrow> py_exception + py_dict"
  generate_competition_slide :: "'st \<Rightarrow> py_exception + py_dict"
  generate_team_slide :: "'st \<Rightarrow> py_exception + py_dict"
  generate_financials_slide :: "'st \<Rightarrow> py_exception + py_dict"
  generate_funding_slide :: "'st \<Rightarrow> py_exception + py_dict"
  generate_custom_slide :: "'st \<Rightarrow> SlideType \<Rightarrow> py_exception + py_dict"
  job_utcnow :: string

definition model_preferences_content :: string where
  "model_preferences_content = ''gpt-4''"

text \<open>\<open>generate_slide_content\<close>: the if/elif dispatch, then the wrapping dict; an exception
  of the generator is logged and raised again.\<close>

definition generate_slide_content ::
  "'st job_env \<Rightarrow> 'st \<Rightarrow> SlideType \<Rightarrow> py_exception + slide_content" where
  "generate_slide_content env startup st =
     (case (if st = TITLE then generate_title_slide env startup
            else if st = PROBLEM then generate_problem_slide env startup
            else if st = SOLUTION then generate_solution_slide env startup
            else if st = MARKET_OPPORTUNITY then generate_market_slide env startup
            else if st = BUSINESS_MODEL then generate_business_model_slide env startup
            else if st = TRACTION then generate_traction_slide env startup
            else if st = COMPETITION then generate_competition_slide env startup
            else if st = TEAM then generate_team_slide env startup
            else if st = FINANCIALS then generate_financials_slide env startup
            else if st = FUNDING_ASK then generate_funding_slide env startup
            else generate_custom_slide env startup st) of
        Inl e \<Rightarrow> Inl e
      | Inr body \<Rightarrow>
          Inr \<lparr> slide_type = slide_type_value st,
                content = body,
                generated_at = job_utcnow env,
                model_used = model_preferences_content \<rparr>)"

text \<open>\<open>_create_fallback_content(slide_type, startup)\<close>; \<open>utcnow\<close> is the clock reading.\<close>

definition create_fallback_content :: "SlideType \<Rightarrow> 'st \<Rightarrow> string \<Rightarrow> slide_content" where
  "create_fallback_content st startup utcnow =
     \<lparr> slide_type = slide_type_value st,
       content =
         [(''title'', JStr (str_title (str_replace_char CHR ''_'' CHR '' '' (slide_type_value st)))),
          (''content'', JStr (''Content for '' @ slide_type_value st @ '' slide'')),
          (''bullet_points'', JList [JStr ''Sample bullet point 1'', JStr ''Sample bullet point 2'']),
          (''layout'', JStr ''bullet_points'')],
       generated_at = utcnow,
       model_used = ''fallback'' \<rparr>"

definition default_slide_types :: "SlideType list" where
  "default_slide_types =
     [TITLE, PROBLEM, SOLUTION, MARKET_OPPORTUNITY, BUSINESS_MODEL,
      TRACTION, COMPETITION, TEAM, FINANCIALS, FUNDING_ASK]"

text \<open>Python's \<open>not slide_types\<close>: true for \<open>None\<close> and for the empty list.\<close>

definition not_slide_types :: "SlideType list option \<Rightarrow> bool" where
  "not_slide_types x = (case x of None \<Rightarrow> True | Some ts \<Rightarrow> ts = [])"

text \<open>
  \<open>asyncio.gather(*tasks, return_exceptions=True)\<close>: one entry per task, in task order,
  the entry being the task's result or the exception it raised. Task \<open>i\<close> runs in its own
  environment \<open>envs i\<close>.
\<close>

definition gather_return_exceptions ::
  "(nat \<Rightarrow> 'st job_env) \<Rightarrow> 'st \<Rightarrow> SlideType list \<Rightarrow> (py_exception + slide_content) list" where
  "gather_return_exceptions envs startup ts =
     map (\<lambda>(i, st). generate_slide_content (envs i) startup st) (enumerate 0 ts)"

text \<open>The merge loop \<open>for i, result in enumerate(results)\<close>; \<open>merge_utcnow i\<close> is the clock
  reading when position \<open>i\<close> gets its fallback.\<close>

fun merge_results ::
  "SlideType list \<Rightarrow> 'st \<Rightarrow> (nat \<Rightarrow> string) \<Rightarrow> slide_content list
     \<Rightarrow> (nat \<times> (py_exception + slide_content)) list \<Rightarrow> slide_content list" where
  "merge_results ts startup merge_utcnow slides_content [] = slides_content"
| "merge_results ts startup merge_utcnow slides_content ((i, result) # rest) =
     (case result of
        Inl e \<Rightarrow>
          merge_results ts startup merge_utcnow
            (slides_content @ [create_fallback_content (ts ! i) startup (merge_utcnow i)]) rest
      | Inr r \<Rightarrow> merge_results ts startup merge_utcnow (slides_content @ [r]) rest)"

text \<open>\<open>generate_pitch_deck_content\<close>. The outer handler logs and raises again, so the
  result type keeps the exception alternative.\<close>

definition generate_pitch_deck_content ::
  "(nat \<Rightarrow> 'st job_env) \<Rightarrow> (nat \<Rightarrow> string) \<Rightarrow> 'st \<Rightarrow> SlideType list option
     \<Rightarrow> py_exception + slide_content list" where
  "generate_pitch_deck_content envs merge_utcnow startup slide_types =
     (let ts = (if not_slide_types slide_types then default_slide_types else the slide_types);
          results = gather_return_exceptions envs startup ts
      in Inr (merge_results ts startup merge_utcnow [] (enumerate 0 results)))"

section \<open>Helpers for Python numbers and dicts\<close>

text \<open>\<open>d.get(k, default)\<close> on a dict held as a map.\<close>

definition dict_get :: "(string \<rightharpoonup> pyval) \<Rightarrow> string \<Rightarrow> pyval \<Rightarrow> pyval" where
  "dict_get d k dflt = (case d k of None \<Rightarrow> dflt | Some v \<Rightarrow> v)"

text \<open>\<open>x * r\<close> and \<open>x / y\<close> and \<open>x > 0\<close> on profile values: a number computes,
  \<open>None\<close> and a string raise \<open>TypeError\<close> (a string times a float, too).\<close>

definition py_mul :: "pyval \<Rightarrow> real \<Rightarrow> py_exception + real" where
  "py_mul v r = (case v of PNum x \<Rightarrow> Inr (x * r) | _ \<Rightarrow> Inl TypeError)"

definition py_gt0 :: "pyval \<Rightarrow> py_exception + bool" where
  "py_gt0 v = (case v of PNum x \<Rightarrow> Inr (x > 0) | _ \<Rightarrow> Inl TypeError)"

definition py_truediv :: "pyval \<Rightarrow> pyval \<Rightarrow> py_exception + real" where
  "py_truediv a b =
     (case (a, b) of
        (PNum x, PNum y) \<Rightarrow> if y = 0 then Inl ZeroDivisionError else Inr (x / y)
      | _ \<Rightarrow> Inl TypeError)"

text \<open>
  \<open>round(x, ndigits)\<close>: to the nearest multiple of \<open>10 ^ -ndigits\<close>, a tie going to the
  even neighbour.
\<close>

definition round_half_even :: "real \<Rightarrow> int" where
  "round_half_even y =
     (let f = \<lfloor>y\<rfloor>; d = y - of_int f
      in if d < 1 / 2 then f
         else if d > 1 / 2 then f + 1
         else if even f then f else f + 1)"

definition py_round :: "real \<Rightarrow> nat \<Rightarrow> real" where
  "py_round x ndigits = of_int (round_half_even (x * 10 ^ ndigits)) / 10 ^ ndigits"

text \<open>A float that may be \<open>float('inf')\<close>.\<close>

datatype py_float = Finite real | Infinity

text \<open>\<open>table.get(funding_stage, default)\<close> on a dict keyed by stage names.\<close>

definition stage_get :: "(string \<times> real) list \<Rightarrow> pyval \<Rightarrow> real \<Rightarrow> real" where
  "stage_get table funding_stage dflt =
     (case funding_stage of
        PStr s \<Rightarrow> (case map_of table s of None \<Rightarrow> dflt | Some r \<Rightarrow> r)
      | _ \<Rightarrow> dflt)"

text \<open>\<open>[sum(xs[i:i+12]) for i in range(0, len(xs), 12)]\<close>.\<close>

definition annual_sums :: "real list \<Rightarrow> real list" where
  "annual_sums xs =
     map (\<lambda>k. sum_list (take 12 (drop (12 * k) xs))) [0 ..< (length xs + 11) div 12]"

section \<open>The outside world of the financial engine\<close>

text \<open>
  The engine draws from \<open>np.random.normal(0, 0.05)\<close> and reads \<open>datetime.utcnow()\<close>.
  The world holds the samples and the clock readings still to come; each call takes the
  first and leaves the rest.
\<close>

record world =
  normal_samples :: "nat \<Rightarrow> real"
  utcnow_readings :: "nat \<Rightarrow> string"

definition np_random_normal :: "world \<Rightarrow> real \<times> world" where
  "np_random_normal w =
     (normal_samples w 0, w\<lparr>normal_samples := (\<lambda>n. normal_samples w (Suc n))\<rparr>)"

definition utcnow_isoformat :: "world \<Rightarrow> string \<times> world" where
  "utcnow_isoformat w =
     (utcnow_readings w 0, w\<lparr>utcnow_readings := (\<lambda>n. utcnow_readings w (Suc n))\<rparr>)"

section \<open>backend/src/ai/market\_researcher.py\<close>






section \<open>backend/src/ai/financial\_modeler.py\<close>

type_synonym startup_data = "string \<rightharpoonup> pyval"

record default_assumptions =
  da_revenue_growth_rate :: real
  da_customer_acquisition_cost :: real
  da_customer_lifetime_value :: real
  da_churn_rate :: real
  da_gross_margin :: real
  da_operating_margin :: real
  da_burn_rate :: real

definition self_default_assumptions :: default_assumptions where
  "self_default_assumptions =
     \<lparr> da_revenue_growth_rate = 0.20,
       da_customer_acquisition_cost = 100,
       da_customer_lifetime_value = 500,
       da_churn_rate = 0.05,
       da_gross_margin = 0.70,
       da_operating_margin = 0.20,
       da_burn_rate = 50000 \<rparr>"

subsection \<open>\<open>_project_revenue\<close>\<close>

record revenue_month =
  month :: nat
  revenue :: real
  growth_rate :: real
  cumulative_revenue :: real

record revenue_projection =
  monthly_revenue :: "revenue_month list"
  annual_revenue :: "real list"
  total_revenue_36_months :: real
  average_monthly_growth :: real

definition growth_rates :: "(string \<times> real) list" where
  "growth_rates = [(''seed'', 0.15), (''series_a'', 0.25), (''series_b'', 0.30), (''series_c'', 0.20)]"

text \<open>The body of \<open>for month in range(1, months + 1)\<close>, over the months still to run.\<close>

fun revenue_loop ::
  "nat list \<Rightarrow> real \<Rightarrow> real \<Rightarrow> revenue_month list \<Rightarrow> world \<Rightarrow> revenue_month list \<times> world" where
  "revenue_loop [] growth monthly_rev revenue_data w = (revenue_data, w)"
| "revenue_loop (m # ms) growth monthly_rev revenue_data w =
     (let (z, w1) = np_random_normal w;
          growth_multiplier = 1 + growth + z;
          monthly_rev1 = monthly_rev * max 0.8 growth_multiplier;
          entry = \<lparr> month = m,
                    revenue = py_round monthly_rev1 2,
                    growth_rate = growth,
                    cumulative_revenue =
                      py_round (sum_list (map revenue revenue_data) + monthly_rev1) 2 \<rparr>
      in revenue_loop ms growth monthly_rev1 (revenue_data @ [entry]) w1)"

text \<open>
  \<open>_project_revenue\<close>. A \<open>current_revenue\<close> that is not a number raises \<open>TypeError\<close> at the
  first \<open>monthly_revenue *= ...\<close>, after the first sample has been drawn.
\<close>

definition project_revenue ::
  "pyval \<Rightarrow> pyval \<Rightarrow> pyval \<Rightarrow> world \<Rightarrow> (py_exception + revenue_projection) \<times> world" where
  "project_revenue current_revenue customer_count funding_stage w =
     (let months = 36;
          growth = stage_get growth_rates funding_stage 0.20
      in case current_revenue of
           PNum x \<Rightarrow>
             (let (revenue_data, w1) = revenue_loop [1 ..< months + 1] growth x [] w
              in (Inr \<lparr> monthly_revenue = revenue_data,
                        annual_revenue = annual_sums (map revenue revenue_data),
                        total_revenue_36_months = sum_list (map revenue revenue_data),
                        average_monthly_growth = growth \<rparr>, w1))
         | _ \<Rightarrow> (Inl TypeError, snd (np_random_normal w)))"

subsection \<open>\<open>_project_costs\<close>\<close>

record cost_month =
  cm_month :: nat
  team_size :: real
  personnel_costs :: real
  overhead_costs :: real
  marketing_costs :: real
  other_costs :: real
  total_costs :: real

record cost_projection =
  monthly_costs :: "cost_month list"
  annual_costs :: "real list"
  total_costs_36_months :: real
  average_monthly_burn :: real

definition team_growth_rates :: "(string \<times> real) list" where
  "team_growth_rates = [(''seed'', 0.10), (''series_a'', 0.15), (''series_b'', 0.20), (''series_c'', 0.15)]"

fun cost_loop :: "nat list \<Rightarrow> real \<Rightarrow> real \<Rightarrow> cost_month list \<Rightarrow> cost_month list" where
  "cost_loop [] team_growth current_team_size cost_data = cost_data"
| "cost_loop (m # ms) team_growth current_team_size cost_data =
     (let base_salary = 8000;
          overhead_per_employee = 2000;
          team1 = min (current_team_size * (1 + team_growth)) 100;
          personnel = team1 * base_salary;
          overhead = team1 * overhead_per_employee;
          marketing = personnel * 0.3;
          other = personnel * 0.2;
          total = personnel + overhead + marketing + other;
          entry = \<lparr> cm_month = m,
                    team_size = py_round team1 1,
                    personnel_costs = py_round personnel 2,
                    overhead_costs = py_round overhead 2,
                    marketing_costs = py_round marketing 2,
                    other_costs = py_round other 2,
                    total_costs = py_round total 2 \<rparr>
      in cost_loop ms team_growth team1 (cost_data @ [entry]))"

definition project_costs :: "pyval \<Rightarrow> pyval \<Rightarrow> py_exception + cost_projection" where
  "project_costs team_size_v funding_stage =
     (let months = 36;
          team_growth = stage_get team_growth_rates funding_stage 0.10
      in case team_size_v of
           PNum t \<Rightarrow>
             (let cost_data = cost_loop [1 ..< months + 1] team_growth t []
              in Inr \<lparr> monthly_costs = cost_data,
                       annual_costs = annual_sums (map total_costs cost_data),
                       total_costs_36_months = sum_list (map total_costs cost_data),
                       average_monthly_burn =
                         sum_list (map total_costs cost_data) / real (length cost_data) \<rparr>)
         | _ \<Rightarrow> Inl TypeError)"

subsection \<open>\<open>_project_cash_flow\<close>\<close>

record cash_flow_month =
  cf_month :: nat
  cf_revenue :: real
  cf_costs :: real
  net_cash_flow :: real
  cumulative_cash :: real
  runway_months :: py_float

record cash_flow_projection =
  monthly_cash_flow :: "cash_flow_month list"
  starting_cash :: real
  ending_cash :: real
  total_net_cash_flow :: real
  average_monthly_cash_flow :: real

text \<open>The loop reads \<open>monthly_revenue[month-1]\<close> and \<open>monthly_costs[month-1]\<close>; an index
  past the end raises \<open>IndexError\<close>. It returns the rows and the final \<open>current_cash\<close>.\<close>

fun cash_flow_loop ::
  "nat list \<Rightarrow> revenue_month list \<Rightarrow> cost_month list \<Rightarrow> real \<Rightarrow> cash_flow_month list
     \<Rightarrow> py_exception + (cash_flow_month list \<times> real)" where
  "cash_flow_loop [] revs costs current_cash cash_flow_data = Inr (cash_flow_data, current_cash)"
| "cash_flow_loop (m # ms) revs costs current_cash cash_flow_data =
     (if m - 1 < length revs \<and> m - 1 < length costs
      then
        (let rev = revenue (revs ! (m - 1));
             cst = total_costs (costs ! (m - 1));
             net = rev - cst;
             cash1 = current_cash + net;
             entry = \<lparr> cf_month = m,
                       cf_revenue = rev,
                       cf_costs = cst,
                       net_cash_flow = py_round net 2,
                       cumulative_cash = py_round cash1 2,
                       runway_months =
                         (if cst > 0 then Finite (py_round (cash1 / cst) 1) else Infinity) \<rparr>
         in cash_flow_loop ms revs costs cash1 (cash_flow_data @ [entry]))
      else Inl IndexError)"

definition project_cash_flow ::
  "revenue_projection \<Rightarrow> cost_projection \<Rightarrow> py_exception + cash_flow_projection" where
  "project_cash_flow revenue_projections cost_projections =
     (let months = 36;
          starting = 1000000
      in case cash_flow_loop [1 ..< months + 1] (monthly_revenue revenue_projections)
                (monthly_costs cost_projections) starting [] of
           Inl e \<Rightarrow> Inl e
         | Inr (cash_flow_data, current_cash) \<Rightarrow>
             Inr \<lparr> monthly_cash_flow = cash_flow_data,
                   starting_cash = starting,
                   ending_cash = current_cash,
                   total_net_cash_flow = current_cash - starting,
                   average_monthly_cash_flow =
                     sum_list (map net_cash_flow cash_flow_data)
                       / real (length cash_flow_data) \<rparr>)"

subsection \<open>\<open>_calculate_unit_economics\<close>\<close>

record unit_economics_dict =
  average_revenue_per_user :: real
  customer_acquisition_cost :: real
  customer_lifetime_value :: real
  churn_rate :: real
  ltv_cac_ratio :: real
  payback_period_months :: py_float
  gross_margin :: real
  contribution_margin :: real

text \<open>
  The local \<open>average_revenue_per_user\<close>:
  \<open>current_revenue / customer_count if customer_count > 0 else 0\<close>, with
  \<open>customer_count = startup_data.get("customer_count", 1)\<close>. The condition is evaluated
  first; the quotient only when it holds.
\<close>

definition arpu_local :: "startup_data \<Rightarrow> py_exception + real" where
  "arpu_local sd =
     (let current_revenue = dict_get sd ''current_revenue'' (PNum 0);
          customer_count = dict_get sd ''customer_count'' (PNum 1)
      in case py_gt0 customer_count of
           Inl e \<Rightarrow> Inl e
         | Inr positive \<Rightarrow>
             if positive then py_truediv current_revenue customer_count else Inr 0)"

definition calculate_unit_economics :: "startup_data \<Rightarrow> py_exception + unit_economics_dict" where
  "calculate_unit_economics sd =
     (case arpu_local sd of
        Inl e \<Rightarrow> Inl e
      | Inr arpu \<Rightarrow>
          (let cac = da_customer_acquisition_cost self_default_assumptions;
               clv = da_customer_lifetime_value self_default_assumptions;
               churn = da_churn_rate self_default_assumptions;
               ratio = (if cac > 0 then clv / cac else 0);
               payback_period = (if arpu > 0 then Finite (cac / arpu) else Infinity)
           in Inr \<lparr> average_revenue_per_user = py_round arpu 2,
                    customer_acquisition_cost = cac,
                    customer_lifetime_value = clv,
                    churn_rate = churn,
                    ltv_cac_ratio = py_round ratio 2,
                    payback_period_months =
                      (case payback_period of
                         Finite p \<Rightarrow> Finite (py_round p 1) | Infinity \<Rightarrow> Infinity),
                    gross_margin = da_gross_margin self_default_assumptions,
                    contribution_margin =
                      py_round (arpu * da_gross_margin self_default_assumptions - cac) 2 \<rparr>))"

subsection \<open>\<open>_calculate_valuation\<close> and \<open>_calculate_key_metrics\<close>\<close>

record valuation_dict =
  projected_annual_revenue :: real
  valuation_multiple :: real
  estimated_valuation :: real
  valuation_date :: string
  methodology :: string

definition valuation_multiples :: "(string \<times> real) list" where
  "valuation_multiples = [(''seed'', 5), (''series_a'', 8), (''series_b'', 10), (''series_c'', 12)]"

definition calculate_valuation ::
  "revenue_projection \<Rightarrow> pyval \<Rightarrow> world \<Rightarrow> (py_exception + valuation_dict) \<times> world" where
  "calculate_valuation revenue_projections funding_stage w =
     (case (if length (annual_revenue revenue_projections) > 2
            then Inr (annual_revenue revenue_projections ! 2)
            else if monthly_revenue revenue_projections = [] then Inl IndexError
            else Inr (revenue (last (monthly_revenue revenue_projections)) * 12)) of
        Inl e \<Rightarrow> (Inl e, w)
      | Inr annual \<Rightarrow>
          (let multiple = stage_get valuation_multiples funding_stage 8;
               valuation = annual * multiple;
               (now, w1) = utcnow_isoformat w
           in (Inr \<lparr> projected_annual_revenue = py_round annual 2,
                     valuation_multiple = multiple,
                     estimated_valuation = py_round valuation 2,
                     valuation_date = now,
                     methodology = ''Revenue multiple'' \<rparr>, w1)))"

record key_metrics_dict =
  km_total_revenue_36_months :: real
  km_total_costs_36_months :: real
  net_profit_36_months :: real
  average_monthly_revenue :: real
  average_monthly_costs :: real
  profit_margin :: real
  revenue_growth_rate :: real
  burn_rate :: real

definition calculate_key_metrics :: "revenue_projection \<Rightarrow> cost_projection \<Rightarrow> key_metrics_dict" where
  "calculate_key_metrics revenue_projections cost_projections =
     (let total_revenue = total_revenue_36_months revenue_projections;
          total_cost = total_costs_36_months cost_projections;
          avg_revenue = total_revenue / 36;
          avg_costs = total_cost / 36
      in \<lparr> km_total_revenue_36_months = py_round total_revenue 2,
           km_total_costs_36_months = py_round total_cost 2,
           net_profit_36_months = py_round (total_revenue - total_cost) 2,
           average_monthly_revenue = py_round avg_revenue 2,
           average_monthly_costs = py_round avg_costs 2,
           profit_margin =
             (if total_revenue > 0
              then py_round ((total_revenue - total_cost) / total_revenue * 100) 2 else 0),
           revenue_growth_rate = average_monthly_growth revenue_projections,
           burn_rate = py_round avg_costs 2 \<rparr>)"

subsection \<open>The financial model and its fallback\<close>

text \<open>
  Each section of the model dict is either the full dict of its projection function or,
  in the fallback record, a dict with a single numeric entry. \<open>scenarios\<close> is a dict from
  scenario name to a financial model; \<open>source\<close> is present only in the fallback record.
\<close>

datatype 'a part = Full 'a | Stub "(string \<times> real) list"

datatype financial_model = FinancialModel
  (startup_name: pyval)
  (created_at: string)
  (projection_period: string)
  (revenue_projections: "revenue_projection part")
  (cost_projections: "cost_projection part")
  (cash_flow_projections: "cash_flow_projection part")
  (unit_economics: "unit_economics_dict part")
  (valuation_model: "valuation_dict part")
  (key_metrics: "key_metrics_dict part")
  (scenarios: "(string \<times> financial_model) list")
  (source: "string option")

definition create_fallback_financial_model :: "startup_data \<Rightarrow> string \<Rightarrow> financial_model" where
  "create_fallback_financial_model sd utcnow =
     FinancialModel
       (dict_get sd ''name'' (PStr ''Unknown''))
       utcnow
       ''36 months''
       (Stub [(''total_revenue_36_months'', 0)])
       (Stub [(''total_costs_36_months'', 0)])
       (Stub [(''total_net_cash_flow'', 0)])
       (Stub [(''ltv_cac_ratio'', 0)])
       (Stub [(''estimated_valuation'', 0)])
       (Stub [(''profit_margin'', 0)])
       []
       (Some ''fallback_data'')"

text \<open>The \<open>except Exception\<close> branch of \<open>create_financial_model\<close>: it reads the clock for
  the fallback record and returns it.\<close>

definition except_branch ::
  "startup_data \<Rightarrow> world \<Rightarrow> (py_exception + financial_model) \<times> world" where
  "except_branch sd w =
     (let (now, w1) = utcnow_isoformat w
      in (Inr (create_fallback_financial_model sd now), w1))"

text \<open>
  The \<open>try\<close> body of \<open>create_financial_model\<close> up to and including the \<open>key_metrics\<close>
  entry of the dict literal, that is everything evaluated before \<open>_create_scenarios\<close> is
  called: the four \<open>.get\<close>s, the five projection calls in order, then the entries
  \<open>startup_name\<close>, \<open>created_at\<close> (a clock reading) and \<open>key_metrics\<close>. The result is the
  model dict with \<open>scenarios\<close> still to be filled in.
\<close>

definition try_body_before_scenarios ::
  "startup_data \<Rightarrow> world \<Rightarrow> (py_exception + financial_model) \<times> world" where
  "try_body_before_scenarios sd w =
     (let current_revenue = dict_get sd ''current_revenue'' (PNum 0);
          customer_count = dict_get sd ''customer_count'' (PNum 0);
          team_size_v = dict_get sd ''team_size'' (PNum 1);
          funding_stage = dict_get sd ''funding_stage'' (PStr ''seed'')
      in case project_revenue current_revenue customer_count funding_stage w of
           (Inl e, w1) \<Rightarrow> (Inl e, w1)
         | (Inr rp, w1) \<Rightarrow>
      (case project_costs team_size_v funding_stage of
           Inl e \<Rightarrow> (Inl e, w1)
         | Inr cp \<Rightarrow>
      (case project_cash_flow rp cp of
           Inl e \<Rightarrow> (Inl e, w1)
         | Inr cfp \<Rightarrow>
      (case calculate_unit_economics sd of
           Inl e \<Rightarrow> (Inl e, w1)
         | Inr ue \<Rightarrow>
      (case calculate_valuation rp funding_stage w1 of
           (Inl e, w2) \<Rightarrow> (Inl e, w2)
         | (Inr vm, w2) \<Rightarrow>
             (let (now, w3) = utcnow_isoformat w2
              in (Inr (FinancialModel
                         (dict_get sd ''name'' PNone)
                         now
                         ''36 months''
                         (Full rp) (Full cp) (Full cfp) (Full ue) (Full vm)
                         (Full (calculate_key_metrics rp cp))
                         []
                         None), w3)))))))"

text \<open>Filling in the \<open>scenarios\<close> entry, the last one of the dict literal.\<close>

fun with_scenarios :: "financial_model \<Rightarrow> (string \<times> financial_model) list \<Rightarrow> financial_model" where
  "with_scenarios (FinancialModel n c p r co cf u v k _ s) scen =
     FinancialModel n c p r co cf u v k scen s"

text \<open>
  \<open>_create_scenarios\<close>, written over the function it calls through \<open>self\<close>, so that the
  same text serves inside the recursive definition below and in the stand-alone constant
  after it. The two scaled seeds are \<open>startup_data.get("current_revenue", 0) * 1.2\<close> and
  \<open>... * 0.8\<close>, stored in a copy of the profile.
\<close>

abbreviation create_scenarios_over ::
  "(startup_data \<Rightarrow> world \<Rightarrow> ((py_exception + financial_model) \<times> world) option)
     \<Rightarrow> startup_data \<Rightarrow> world
     \<Rightarrow> ((py_exception + (string \<times> financial_model) list) \<times> world) option" where
  "create_scenarios_over self_create_financial_model sd w \<equiv>
     Option.bind (self_create_financial_model sd w) (\<lambda>(r0, w1).
       case r0 of Inl e \<Rightarrow> Some (Inl e, w1) | Inr base_case \<Rightarrow>
       (case py_mul (dict_get sd ''current_revenue'' (PNum 0)) 1.2 of
          Inl e \<Rightarrow> Some (Inl e, w1)
        | Inr optimistic_revenue \<Rightarrow>
       Option.bind (self_create_financial_model
                      (sd(''current_revenue'' \<mapsto> PNum optimistic_revenue)) w1) (\<lambda>(r1, w2).
         case r1 of Inl e \<Rightarrow> Some (Inl e, w2) | Inr optimistic \<Rightarrow>
         (case py_mul (dict_get sd ''current_revenue'' (PNum 0)) 0.8 of
            Inl e \<Rightarrow> Some (Inl e, w2)
          | Inr pessimistic_revenue \<Rightarrow>
         Option.bind (self_create_financial_model
                        (sd(''current_revenue'' \<mapsto> PNum pessimistic_revenue)) w2) (\<lambda>(r2, w3).
           case r2 of Inl e \<Rightarrow> Some (Inl e, w3) | Inr pessimistic \<Rightarrow>
             Some (Inr [(''base_case'', base_case),
                        (''optimistic'', optimistic),
                        (''pessimistic'', pessimistic)], w3))))))"

text \<open>
  \<open>create_financial_model\<close>. The result is \<open>None\<close> when the call does not return; a
  returned value is the model or an exception that left the function, with the world
  after the call.
\<close>

partial_function (option) create_financial_model ::
  "startup_data \<Rightarrow> world \<Rightarrow> ((py_exception + financial_model) \<times> world) option" where
  "create_financial_model sd w =
     (case try_body_before_scenarios sd w of
        (Inl e, w1) \<Rightarrow> Some (except_branch sd w1)
      | (Inr financial_model, w1) \<Rightarrow>
          Option.bind (create_scenarios_over create_financial_model sd w1) (\<lambda>(r, w2).
            case r of
              Inl e \<Rightarrow> Some (except_branch sd w2)
            | Inr scen \<Rightarrow> Some (Inr (with_scenarios financial_model scen), w2)))"

definition create_scenarios ::
  "startup_data \<Rightarrow> world \<Rightarrow> ((py_exception + (string \<times> financial_model) list) \<times> world) option" where
  "create_scenarios sd w = create_scenarios_over create_financial_model sd w"

section \<open>Concrete inputs for the examples\<close>

text \<open>A job environment in which every generator answers, and one in which every
  generator fails with a provider timeout. The startup profile is the unit value.\<close>

definition ok_env :: "unit job_env" where
  "ok_env =
     \<lparr> generate_title_slide = (\<lambda>_. Inr [(''title'', JStr ''Acme'')]),
       generate_problem_slide = (\<lambda>_. Inr [(''title'', JStr ''The Problem'')]),
       generate_solution_slide = (\<lambda>_. Inr [(''title'', JStr ''Our Solution'')]),
       generate_market_slide = (\<lambda>_. Inr [(''title'', JStr ''Market Opportunity'')]),
       generate_business_model_slide = (\<lambda>_. Inr [(''title'', JStr ''Business Model'')]),
       generate_traction_slide = (\<lambda>_. Inr [(''title'', JStr ''Traction & Milestones'')]),
       generate_competition_slide = (\<lambda>_. Inr [(''title'', JStr ''Competitive Landscape'')]),
       generate_team_slide = (\<lambda>_. Inr [(''title'', JStr ''Our Team'')]),
       generate_financials_slide = (\<lambda>_. Inr [(''title'', JStr ''Financial Projections'')]),
       generate_funding_slide = (\<lambda>_. Inr [(''title'', JStr ''Funding Ask'')]),
       generate_custom_slide = (\<lambda>_ st. Inr [(''title'', JStr (str_title (slide_type_value st)))]),
       job_utcnow = ''2024-01-01T00:00:00'' \<rparr>"

definition failing_env :: "unit job_env" where
  "failing_env =
     \<lparr> generate_title_slide = (\<lambda>_. Inl (ProviderError ''timeout'')),
       generate_problem_slide = (\<lambda>_. Inl (ProviderError ''timeout'')),
       generate_solution_slide = (\<lambda>_. Inl (ProviderError ''timeout'')),
       generate_market_slide = (\<lambda>_. Inl (ProviderError ''timeout'')),
       generate_business_model_slide = (\<lambda>_. Inl (ProviderError ''timeout'')),
       generate_traction_slide = (\<lambda>_. Inl (ProviderError ''timeout'')),
       generate_competition_slide = (\<lambda>_. Inl (ProviderError ''timeout'')),
       generate_team_slide = (\<lambda>_. Inl (ProviderError ''timeout'')),
       generate_financials_slide = (\<lambda>_. Inl (ProviderError ''timeout'')),
       generate_funding_slide = (\<lambda>_. Inl (ProviderError ''timeout'')),
       generate_custom_slide = (\<lambda>_ _. Inl (ProviderError ''timeout'')),
       job_utcnow = ''2024-01-01T00:00:00'' \<rparr>"





section \<open>Predicates used in the statements\<close>




section \<open>Properties of the content orchestrator\<close>

text \<open>The merge loop appends one slide per gathered result, in order.\<close>

lemma merge_results_eq:
  "merge_results ts s mu acc xs =
     acc @ map (\<lambda>(i, r). case r of Inl e \<Rightarrow> create_fallback_content (ts ! i) s (mu i) | Inr c \<Rightarrow> c) xs"
  by (induction xs arbitrary: acc) (auto split: sum.splits)

lemma generate_slide_content_slide_type:
  "generate_slide_content env s st = Inr c \<Longrightarrow> slide_type c = slide_type_value st"
  by (auto simp: generate_slide_content_def split: sum.splits)

lemma pitch_deck_eq:
  "generate_pitch_deck_content envs mu s req =
     Inr (map (\<lambda>i. case generate_slide_content (envs i) s
                          ((if not_slide_types req then default_slide_types else the req) ! i) of
                   Inl e \<Rightarrow> create_fallback_content
                              ((if not_slide_types req then default_slide_types else the req) ! i) s (mu i)
                 | Inr c \<Rightarrow> c)
            [0 ..< length (if not_slide_types req then default_slide_types else the req)])"
  unfolding generate_pitch_deck_content_def Let_def gather_return_exceptions_def merge_results_eq
  by (auto simp: enumerate_eq_zip map_nth intro!: nth_equalityI cong: sum.case_cong)

lemma merged_slide_type:
  "slide_type (case generate_slide_content env s st of
                 Inl e \<Rightarrow> create_fallback_content st s t | Inr c \<Rightarrow> c) = slide_type_value st"
  by (auto simp: generate_slide_content_slide_type create_fallback_content_def split: sum.splits)

lemma pitch_deck_slide_types:
  "\<exists>out. generate_pitch_deck_content envs mu s req = Inr out \<and>
         map slide_type out =
           map slide_type_value (if not_slide_types req then default_slide_types else the req)"
  unfolding pitch_deck_eq
  by (auto simp: merged_slide_type intro!: nth_equalityI)


text \<open>
  C1 (amended). For every startup profile and every requested slide-type list of length
  \<open>N \<ge> 1\<close>, \<open>generate_pitch_deck_content\<close> returns exactly \<open>N\<close> slide records whose
  \<open>slide_type\<close> sequence is the requested sequence in order. When the request is absent
  or the empty list (\<open>not slide_types\<close>), the result has the ten default slide types in
  their fixed order.
\<close>

theorem pitch_deck_length_and_order:
  "(ts \<noteq> [] \<longrightarrow>
      (\<exists>out. generate_pitch_deck_content envs mu s (Some ts) = Inr out \<and>
             length out = length ts \<and> map slide_type out = map slide_type_value ts)) \<and>
   (not_slide_types req \<longrightarrow>
      (\<exists>out. generate_pitch_deck_content envs mu s req = Inr out \<and>
             length out = 10 \<and> map slide_type out = map slide_type_value default_slide_types))"
proof (intro conjI impI)
  assume ne: "ts \<noteq> []"
  obtain out where o: "generate_pitch_deck_content envs mu s (Some ts) = Inr out"
    "map slide_type out =
       map slide_type_value (if not_slide_types (Some ts) then default_slide_types else the (Some ts))"
    using pitch_deck_slide_types [of envs mu s "Some ts"] by blast
  from ne o(2) have m: "map slide_type out = map slide_type_value ts"
    by (simp add: not_slide_types_def)
  then have "length out = length ts"
    by (rule map_eq_imp_length_eq)
  with o(1) m
  show "\<exists>out. generate_pitch_deck_content envs mu s (Some ts) = Inr out \<and>
             length out = length ts \<and> map slide_type out = map slide_type_value ts"
    by blast
next
  assume d: "not_slide_types req"
  obtain out where o: "generate_pitch_deck_content envs mu s req = Inr out"
    "map slide_type out =
       map slide_type_value (if not_slide_types req then default_slide_types else the req)"
    using pitch_deck_slide_types [of envs mu s req] by blast
  from d o(2) have m: "map slide_type out = map slide_type_value default_slide_types"
    by simp
  then have "length out = length default_slide_types"
    by (rule map_eq_imp_length_eq)
  then have "length out = 10"
    by (simp add: default_slide_types_def)
  with o(1) m
  show "\<exists>out. generate_pitch_deck_content envs mu s req = Inr out \<and>
             length out = 10 \<and> map slide_type out = map slide_type_value default_slide_types"
    by blast
qed


theorem pitch_deck_length_and_order_witness:
  "[TITLE, TEAM] \<noteq> [] \<and> not_slide_types (Some []) \<and>
   (\<exists>out. generate_pitch_deck_content (\<lambda>i. ok_env) (\<lambda>i. ''2024-01-01T00:00:05'') ()
            (Some [TITLE, TEAM]) = Inr out \<and>
          length out = 2 \<and> map slide_type out = [''title'', ''team'']) \<and>
   (\<exists>out. generate_pitch_deck_content (\<lambda>i. ok_env) (\<lambda>i. ''2024-01-01T00:00:05'') ()
            (Some []) = Inr out \<and> length out = 10)"
  using pitch_deck_length_and_order
          [of "[TITLE, TEAM]" "\<lambda>i. ok_env" "\<lambda>i. ''2024-01-01T00:00:05''" "()" "Some []"]
  by (auto simp: not_slide_types_def numeral_2_eq_2)

text \<open>C1 as stated fails for \<open>N = 0\<close>: the empty request yields ten slides, not none.\<close>

theorem empty_request_counterexample:
  "\<not> (\<exists>out. generate_pitch_deck_content (\<lambda>i. ok_env) (\<lambda>i. ''2024-01-01T00:00:05'') ()
              (Some []) = Inr out \<and> length out = length ([] :: SlideType list))"
  by (simp add: pitch_deck_eq not_slide_types_def default_slide_types_def)

text \<open>
  C2. For every non-empty batch, whatever jobs raise, the orchestrator returns (it does
  not raise) one entry per requested slide type in the original order; a position whose
  job raised holds the fallback record for that slide type, with
  \<open>model_used = "fallback"\<close>, and a position whose job returned holds exactly that job's
  result, so no job's outcome touches another position.
\<close>

theorem partial_failure:
  assumes "ts \<noteq> []"
  shows "\<exists>out. generate_pitch_deck_content envs mu s (Some ts) = Inr out \<and>
           length out = length ts \<and>
           (\<forall>i < length ts.
              slide_type (out ! i) = slide_type_value (ts ! i) \<and>
              (case generate_slide_content (envs i) s (ts ! i) of
                 Inl e \<Rightarrow> out ! i = create_fallback_content (ts ! i) s (mu i) \<and>
                          model_used (out ! i) = ''fallback''
               | Inr c \<Rightarrow> out ! i = c))"
proof -
  from assms have eff: "(if not_slide_types (Some ts) then default_slide_types else the (Some ts)) = ts"
    by (simp add: not_slide_types_def)
  show ?thesis
    unfolding pitch_deck_eq eff
    by (auto simp: merged_slide_type generate_slide_content_slide_type
          create_fallback_content_def split: sum.splits)
qed

text \<open>The batch of three slide types in which only the second job fails.\<close>

lemma generate_ok_env:
  "generate_slide_content ok_env () TITLE =
     Inr \<lparr> slide_type = ''title'', content = [(''title'', JStr ''Acme'')],
           generated_at = ''2024-01-01T00:00:00'', model_used = ''gpt-4'' \<rparr>"
  "generate_slide_content ok_env () SOLUTION =
     Inr \<lparr> slide_type = ''solution'', content = [(''title'', JStr ''Our Solution'')],
           generated_at = ''2024-01-01T00:00:00'', model_used = ''gpt-4'' \<rparr>"
  by (simp_all add: generate_slide_content_def ok_env_def model_preferences_content_def)

lemma generate_failing_env:
  "generate_slide_content failing_env () PROBLEM = Inl (ProviderError ''timeout'')"
  by (simp add: generate_slide_content_def failing_env_def)

theorem partial_failure_witness:
  "[TITLE, PROBLEM, SOLUTION] \<noteq> [] \<and>
   (\<exists>out. generate_pitch_deck_content (\<lambda>i. if i = 1 then failing_env else ok_env)
            (\<lambda>i. ''2024-01-01T00:00:05'') () (Some [TITLE, PROBLEM, SOLUTION]) = Inr out \<and>
          length out = 3 \<and>
          map slide_type out = [''title'', ''problem'', ''solution''] \<and>
          map model_used out = [''gpt-4'', ''fallback'', ''gpt-4''])"
proof -
  let ?ts = "[TITLE, PROBLEM, SOLUTION]"
  let ?envs = "\<lambda>i::nat. if i = 1 then failing_env else ok_env"
  let ?mu = "\<lambda>i::nat. ''2024-01-01T00:00:05''"
  have ne: "?ts \<noteq> []" by simp
  obtain out where all:
      "generate_pitch_deck_content ?envs ?mu () (Some ?ts) = Inr out \<and>
       length out = length ?ts \<and>
       (\<forall>i < length ?ts.
              slide_type (out ! i) = slide_type_value (?ts ! i) \<and>
              (case generate_slide_content (?envs i) () (?ts ! i) of
                 Inl e \<Rightarrow> out ! i = create_fallback_content (?ts ! i) () (?mu i) \<and>
                          model_used (out ! i) = ''fallback''
               | Inr c \<Rightarrow> out ! i = c))"
    using partial_failure [OF ne, of ?envs ?mu "()"] ..
  note o = all [THEN conjunct1]
  note len = all [THEN conjunct2, THEN conjunct1]
  note each = all [THEN conjunct2, THEN conjunct2, rule_format]
  from len obtain a b c where abc: "out = [a, b, c]"
    by (auto simp: length_Suc_conv)
  have a: "slide_type a = ''title'' \<and> model_used a = ''gpt-4''"
    using each [of 0] by (simp add: abc generate_ok_env)
  have b: "slide_type b = ''problem'' \<and> model_used b = ''fallback''"
    using each [of 1] by (simp add: abc generate_failing_env create_fallback_content_def)
  have c: "slide_type c = ''solution'' \<and> model_used c = ''gpt-4''"
    using each [of 2] by (simp add: abc generate_ok_env)
  from a b c have fin: "length out = 3 \<and> map slide_type out = [''title'', ''problem'', ''solution''] \<and>
      map model_used out = [''gpt-4'', ''fallback'', ''gpt-4'']"
    by (simp add: abc)
  show ?thesis
    using o fin by simp
qed

text \<open>
  C5 (amended). The fallback slide is a function of the slide type and of the clock
  reading stored in \<open>generated_at\<close>, and of nothing else: for any two startup profiles
  and any two times the two records agree in every field except \<open>generated_at\<close>.
\<close>

theorem fallback_content_pure_up_to_timestamp:
  "create_fallback_content st s1 t1 = (create_fallback_content st s2 t2)\<lparr>generated_at := t1\<rparr>"
  by (simp add: create_fallback_content_def)

text \<open>C5 as stated fails: two invocations at different times give different records.\<close>

theorem fallback_time_counterexample:
  "create_fallback_content TITLE () ''2024-01-01T00:00:00''
     \<noteq> create_fallback_content TITLE () ''2024-01-01T00:00:01''"
  by (simp add: create_fallback_content_def)

text \<open>The fallback slide for the market-opportunity type, evaluated.\<close>

lemma fallback_content_example:
  "create_fallback_content MARKET_OPPORTUNITY s t =
     \<lparr> slide_type = ''market_opportunity'',
       content =
         [(''title'', JStr ''Market Opportunity''),
          (''content'', JStr ''Content for market_opportunity slide''),
          (''bullet_points'', JList [JStr ''Sample bullet point 1'', JStr ''Sample bullet point 2'']),
          (''layout'', JStr ''bullet_points'')],
       generated_at = t,
       model_used = ''fallback'' \<rparr>"
  by (simp add: create_fallback_content_def str_title_def str_replace_char_def is_cased_def
        char_upper_def char_lower_def ascii_lowercase_def ascii_uppercase_def)

section \<open>Rounding\<close>







section \<open>Properties of the market-sizing calculation\<close>




section \<open>Properties of the unit economics\<close>



text \<open>The example of the specification: revenue 50000 and 100 customers.\<close>

lemma unit_economics_example:
  "calculate_unit_economics [''current_revenue'' \<mapsto> PNum 50000, ''customer_count'' \<mapsto> PNum 100]
   = Inr \<lparr> average_revenue_per_user = 500,
           customer_acquisition_cost = 100,
           customer_lifetime_value = 500,
           churn_rate = 0.05,
           ltv_cac_ratio = 5,
           payback_period_months = Finite 0.2,
           gross_margin = 0.70,
           contribution_margin = 250 \<rparr>"
  by (simp add: calculate_unit_economics_def arpu_local_def dict_get_def py_gt0_def
        py_truediv_def Let_def self_default_assumptions_def py_round_def round_half_even_def)

section \<open>Whole cents\<close>






section \<open>Properties of the revenue projection\<close>














section \<open>Properties of the cost and cash-flow projections\<close>









section \<open>Properties of \<open>create_financial_model\<close>\<close>






















text \<open>
  What \<open>_create_scenarios\<close> computes when it returns: the three entries are the results
  of \<open>create_financial_model\<close> on the profile itself and on the copies whose
  \<open>current_revenue\<close> is scaled by 1.2 and by 0.8, each run in the world the previous run
  left behind (so the three runs draw successive samples from the random source).
\<close>

lemma create_scenarios_recomputes:
  assumes "create_scenarios sd w = Some (Inr scen, w')"
  shows "\<exists>base_case optimistic pessimistic x w1 w2.
     dict_get sd ''current_revenue'' (PNum 0) = PNum x \<and>
     create_financial_model sd w = Some (Inr base_case, w1) \<and>
     create_financial_model (sd(''current_revenue'' \<mapsto> PNum (x * 1.2))) w1
       = Some (Inr optimistic, w2) \<and>
     create_financial_model (sd(''current_revenue'' \<mapsto> PNum (x * 0.8))) w2
       = Some (Inr pessimistic, w') \<and>
     scen = [(''base_case'', base_case), (''optimistic'', optimistic),
             (''pessimistic'', pessimistic)]"
  using assms
  unfolding create_scenarios_def py_mul_def
  by (auto split: Option.bind_splits sum.splits prod.splits pyval.splits)



end
